theory Spec2Isabelle
  imports Main "HOL-Library.Word"
begin

section \<open>The authentication middleware of main.go\<close>

text \<open>
  The plugin is a thin gate around calls into Go's standard library and into the host
  (the response writer and the next handler). The model keeps that boundary: the code of
  \<open>New\<close> and \<open>ServeHTTP\<close> is translated statement by statement, every call that
  leaves the package is recorded as an event with the arguments the code passes, in the
  order of the calls, and what such a call returns to the code (the parsed URL, the built
  request, the outcome of the round trip, the decoded body) is read from a \<open>world\<close>
  given to the function.
\<close>

subsection \<open>Data\<close>

text \<open>
  A Go \<open>error\<close> is its message; \<open>time.Duration\<close> is an \<open>int64\<close> of nanoseconds,
  read as a signed number by \<open>sint\<close>. The structs keep the field names of the code and of
  the library, but for four: the field \<open>next\<close> of the plugin is \<open>nextHandler\<close>, the
  \<open>Timeout\<close> of \<open>http.Client\<close> is \<open>ClientTimeout\<close>, the \<open>Path\<close> of
  \<open>http.Cookie\<close> is \<open>CookiePath\<close>, and the \<open>URL\<close> of \<open>http.Request\<close> is
  \<open>Target\<close>, the string the request was built from. Of the library's structs only the
  fields the code sets or reads are kept.
\<close>

type_synonym error = string

type_synonym Duration = "64 word"

definition Second :: Duration where
  "Second = 1000000000"

definition StatusOK :: int where
  "StatusOK = 200"

definition StatusUnauthorized :: int where
  "StatusUnauthorized = 401"

definition StatusInternalServerError :: int where
  "StatusInternalServerError = 500"

definition MethodGet :: string where
  "MethodGet = ''GET''"

record Config =
  Conf :: string
  Timeout :: Duration

definition CreateConfig :: Config where
  "CreateConfig = \<lparr>Conf = [], Timeout = 30 * Second\<rparr>"

record authResponse =
  AccessToken :: string

text \<open>The fields of \<open>url.URL\<close> that the configured endpoint can give to the plugin.\<close>

record URL =
  Scheme :: string
  Host :: string
  Path :: string
  RawQuery :: string

text \<open>\<open>http.Header\<close> is \<open>map[string][]string\<close>.\<close>

type_synonym Header = "string \<rightharpoonup> string list"

record Request =
  Method :: string
  Target :: string
  Header :: Header

record Response =
  StatusCode :: int
  Body :: "error + string"

record Client =
  ClientTimeout :: Duration

record Cookie =
  Name :: string
  Value :: string
  CookiePath :: string
  HttpOnly :: bool
  Secure :: bool

record 'h AuthPlugin =
  nextHandler :: 'h
  endpointHost :: string
  endpointPath :: string
  timeout :: Duration
  name :: string

subsection \<open>What the code calls\<close>

text \<open>
  What the library and the network give back to the code. \<open>url_Parse\<close> is
  \<open>url.Parse\<close>; \<open>http_NewRequest\<close> is \<open>http.NewRequest\<close> with a nil body, from
  the method and the URL string; \<open>client_Do\<close> is the round trip of \<open>client.Do\<close>,
  whose response carries in \<open>Body\<close> what \<open>io.ReadAll\<close> will return for it;
  \<open>json_field\<close> is the decoder of \<open>encoding/json\<close> on the one field of
  \<open>authResponse\<close>: the data is rejected, or it is accepted and carries a string for
  \<open>accessToken\<close> or none.
\<close>

record world =
  url_Parse :: "string \<Rightarrow> error + URL"
  http_NewRequest :: "string \<Rightarrow> string \<Rightarrow> error + Request"
  client_Do :: "Client \<Rightarrow> Request \<Rightarrow> error + Response"
  json_field :: "string \<Rightarrow> error + string option"

text \<open>
  The calls that leave the package, as events: \<open>fmt.Println\<close> with its operands,
  \<open>client.Do\<close>, the deferred \<open>resp.Body.Close\<close>, the four ways the code writes to
  the response writer (\<open>http.Error\<close>, \<open>WriteHeader\<close>, \<open>Write\<close>,
  \<open>http.SetCookie\<close>) and \<open>next.ServeHTTP\<close> with the handler and the request it gets.
  An event is the call with its arguments; what the library does to carry it out (the
  bytes \<open>http.Error\<close> and \<open>http.SetCookie\<close> put on the wire, the redirects
  \<open>client.Do\<close> follows) is not part of it.
\<close>

datatype 'h event =
    Println "string list"
  | ClientDo Client Request
  | BodyClose
  | HttpError string int
  | WriteHeader int
  | Write string
  | SetCookie Cookie
  | NextServeHTTP 'h Request

subsection \<open>Header names\<close>

text \<open>
  \<open>Header.Get\<close> and \<open>Header.Set\<close> work on the canonical form of the name
  (\<open>textproto.CanonicalMIMEHeaderKey\<close>): a name made of token bytes only gets an upper
  case letter first and after each hyphen and lower case letters elsewhere; any other name
  is left as it is.
\<close>

definition validHeaderFieldByte :: "char \<Rightarrow> bool" where
  "validHeaderFieldByte c \<longleftrightarrow>
     c \<in> set (''abcdefghijklmnopqrstuvwxyzABCDEFGHIJKLMNOPQRSTUVWXYZ0123456789'' @
       [CHR ''!'', CHR ''#'', CHR ''$'', CHR ''%'', CHR ''&'', CHR 0x27, CHR ''*'', CHR ''+'',
        CHR ''-'', CHR ''.'', CHR ''^'', CHR ''_'', CHR 0x60, CHR ''|'', CHR ''~''])"

definition toUpper :: "char \<Rightarrow> char" where
  "toUpper c =
     (case map_of (zip ''abcdefghijklmnopqrstuvwxyz'' ''ABCDEFGHIJKLMNOPQRSTUVWXYZ'') c of
        None \<Rightarrow> c | Some u \<Rightarrow> u)"

definition toLower :: "char \<Rightarrow> char" where
  "toLower c =
     (case map_of (zip ''ABCDEFGHIJKLMNOPQRSTUVWXYZ'' ''abcdefghijklmnopqrstuvwxyz'') c of
        None \<Rightarrow> c | Some l \<Rightarrow> l)"

fun canonical :: "bool \<Rightarrow> string \<Rightarrow> string" where
  "canonical upper [] = []"
| "canonical upper (c # cs) =
     (if upper then toUpper c else toLower c) # canonical (c = CHR ''-'') cs"

definition CanonicalMIMEHeaderKey :: "string \<Rightarrow> string" where
  "CanonicalMIMEHeaderKey s = (if list_all validHeaderFieldByte s then canonical True s else s)"

definition Header_Get :: "Header \<Rightarrow> string \<Rightarrow> string" where
  "Header_Get h key =
     (case h (CanonicalMIMEHeaderKey key) of
        None \<Rightarrow> []
      | Some [] \<Rightarrow> []
      | Some (v # _) \<Rightarrow> v)"

definition Header_Set :: "Header \<Rightarrow> string \<Rightarrow> string \<Rightarrow> Header" where
  "Header_Set h key v = h(CanonicalMIMEHeaderKey key \<mapsto> [v])"

subsection \<open>New\<close>

text \<open>
  \<open>New\<close> returns the plugin or an error, and with it the events of the call: the code
  of \<open>New\<close> calls \<open>url.Parse\<close> and \<open>fmt.Errorf\<close> only, so there are none.
\<close>

definition New :: "world \<Rightarrow> 'h \<Rightarrow> Config \<Rightarrow> string \<Rightarrow> (error + 'h AuthPlugin) \<times> 'h event list" where
  "New w nxt config nm =
     (if Conf config = [] then (Inl ''conf cannot be empty'', [])
      else case url_Parse w (Conf config) of
        Inl err \<Rightarrow> (Inl (''invalid auth endpoint URL: '' @ err), [])
      | Inr parsedURL \<Rightarrow>
          (let timeout0 = Timeout config;
               timeout1 = (if timeout0 = 0 then 30 * Second else timeout0)
           in (Inr \<lparr>nextHandler = nxt,
                     endpointHost = Host parsedURL,
                     endpointPath = Path parsedURL,
                     timeout = timeout1,
                     name = nm\<rparr>, [])))"

subsection \<open>ServeHTTP\<close>

definition io_ReadAll :: "error + string \<Rightarrow> error + string" where
  "io_ReadAll b = b"

text \<open>
  \<open>json.Unmarshal(body, &authResp)\<close>: an error, or the struct with the field
  overwritten when the data carries it and left as it was when the data does not.
\<close>

definition json_Unmarshal :: "world \<Rightarrow> string \<Rightarrow> authResponse \<Rightarrow> error + authResponse" where
  "json_Unmarshal w data v =
     (case json_field w data of
        Inl err \<Rightarrow> Inl err
      | Inr None \<Rightarrow> Inr v
      | Inr (Some s) \<Rightarrow> Inr (v\<lparr>AccessToken := s\<rparr>))"

text \<open>
  The part of \<open>ServeHTTP\<close> after a successful \<open>client.Do\<close> (lines 107 to 140); the
  deferred close of the body follows it on every path.
\<close>

definition after_Do :: "world \<Rightarrow> 'h AuthPlugin \<Rightarrow> Request \<Rightarrow> Response \<Rightarrow> 'h event list" where
  \<open>after_Do w a req resp =
     (case io_ReadAll (Body resp) of
        Inl err \<Rightarrow> [HttpError ''{"error": "Internal error"}'' StatusInternalServerError]
      | Inr body \<Rightarrow>
          if StatusCode resp \<noteq> StatusOK then [WriteHeader (StatusCode resp), Write body]
          else (case json_Unmarshal w body \<lparr>AccessToken = []\<rparr> of
                  Inl err \<Rightarrow> [HttpError ''{"error": "Internal error"}'' StatusInternalServerError]
                | Inr authResp \<Rightarrow>
                    [SetCookie \<lparr>Name = ''token'', Value = AccessToken authResp,
                                CookiePath = ''/'', HttpOnly = True, Secure = True\<rparr>,
                     NextServeHTTP (nextHandler a) req]))\<close>

definition ServeHTTP :: "world \<Rightarrow> 'h AuthPlugin \<Rightarrow> Request \<Rightarrow> 'h event list" where
  \<open>ServeHTTP w a req =
     (let apiKey = Header_Get (Header req) ''x-api-key'';
          tenant = Header_Get (Header req) ''x-account''
      in if apiKey = [] \<or> tenant = [] then [HttpError ''{"error": "Unauthorized"}'' StatusUnauthorized]
         else
           let authURL = ''http://'' @ endpointHost a @ endpointPath a
           in Println [''Auth URL:'', authURL] #
              (case http_NewRequest w MethodGet authURL of
                 Inl err \<Rightarrow> [HttpError ''{"error": "Internal error"}'' StatusInternalServerError]
               | Inr authReq0 \<Rightarrow>
                   let authReq1 = authReq0\<lparr>Header := Header_Set (Header authReq0) ''x-api-key'' apiKey\<rparr>;
                       authReq = authReq1\<lparr>Header := Header_Set (Header authReq1) ''x-account'' tenant\<rparr>;
                       client = \<lparr>ClientTimeout = timeout a\<rparr>
                   in ClientDo client authReq #
                      (case client_Do w client authReq of
                         Inl err \<Rightarrow> [HttpError ''{"error": "Internal error"}'' StatusInternalServerError]
                       | Inr resp \<Rightarrow> after_Do w a req resp @ [BodyClose])))\<close>

subsection \<open>Reading a run\<close>

text \<open>
  The outbound calls of a run, the calls of the next handler, the cookies attached and
  what was written to the caller, each in order.
\<close>

primrec outbound :: "'h event list \<Rightarrow> (Client \<times> Request) list" where
  "outbound [] = []"
| "outbound (e # es) = (case e of ClientDo c r \<Rightarrow> (c, r) # outbound es | _ \<Rightarrow> outbound es)"

primrec next_calls :: "'h event list \<Rightarrow> ('h \<times> Request) list" where
  "next_calls [] = []"
| "next_calls (e # es) =
     (case e of NextServeHTTP h r \<Rightarrow> (h, r) # next_calls es | _ \<Rightarrow> next_calls es)"

primrec cookies :: "'h event list \<Rightarrow> Cookie list" where
  "cookies [] = []"
| "cookies (e # es) = (case e of SetCookie c \<Rightarrow> c # cookies es | _ \<Rightarrow> cookies es)"

primrec written :: "'h event list \<Rightarrow> 'h event list" where
  "written [] = []"
| "written (e # es) =
     (case e of
        HttpError m c \<Rightarrow> e # written es
      | WriteHeader c \<Rightarrow> e # written es
      | Write b \<Rightarrow> e # written es
      | _ \<Rightarrow> written es)"

subsection \<open>A sample deployment\<close>

text \<open>
  A small world to run the code in: an auth server at \<open>auth-service\<close> that answers by
  the API key it is sent, as the fake server of the package's test does for the key
  \<open>dummy\<close>. Its \<open>url.Parse\<close> knows a few endpoints; as in Go, the empty string
  parses (to the empty URL), \<open>%25\<close> in a path is decoded to a percent sign, and a URL
  with a percent sign that starts no escape is rejected. Its \<open>http.NewRequest\<close> fails
  when the URL does not parse.
\<close>

definition sample_Parse :: "string \<Rightarrow> error + URL" where
  \<open>sample_Parse s =
     (if s = [] then Inr \<lparr>Scheme = [], Host = [], Path = [], RawQuery = []\<rparr>
      else if s = ''http://auth-service/verify'' then
        Inr \<lparr>Scheme = ''http'', Host = ''auth-service'', Path = ''/verify'', RawQuery = []\<rparr>
      else if s = ''https://auth-service/verify?realm=a'' then
        Inr \<lparr>Scheme = ''https'', Host = ''auth-service'', Path = ''/verify'', RawQuery = ''realm=a''\<rparr>
      else if s = ''http://auth-service/verify%25'' then
        Inr \<lparr>Scheme = ''http'', Host = ''auth-service'', Path = ''/verify%'', RawQuery = []\<rparr>
      else Inl ''invalid URL escape "%"'')\<close>

definition sample_NewRequest :: "string \<Rightarrow> string \<Rightarrow> error + Request" where
  "sample_NewRequest m u =
     (case sample_Parse u of
        Inl err \<Rightarrow> Inl err
      | Inr _ \<Rightarrow> Inr \<lparr>Method = m, Target = u, Header = Map.empty\<rparr>)"

definition sample_Do :: "Client \<Rightarrow> Request \<Rightarrow> error + Response" where
  \<open>sample_Do c r =
     (let k = Header_Get (Header r) ''x-api-key'' in
      if k = ''dummy'' then Inr \<lparr>StatusCode = 200, Body = Inr ''{"accessToken":"test-token"}''\<rparr>
      else if k = ''anonymous'' then Inr \<lparr>StatusCode = 200, Body = Inr ''{}''\<rparr>
      else if k = ''blank'' then Inr \<lparr>StatusCode = 200, Body = Inr ''{"accessToken":""}''\<rparr>
      else if k = ''extra'' then Inr \<lparr>StatusCode = 200, Body = Inr ''{"accessToken":"t1","ttl":60}''\<rparr>
      else if k = ''garbled'' then Inr \<lparr>StatusCode = 200, Body = Inr ''<html>''\<rparr>
      else if k = ''cut'' then Inr \<lparr>StatusCode = 200, Body = Inl ''unexpected EOF''\<rparr>
      else if k = ''expired'' then Inr \<lparr>StatusCode = 403, Body = Inr ''{"error":"forbidden"}''\<rparr>
      else Inl ''connection refused'')\<close>

definition sample_field :: "string \<Rightarrow> error + string option" where
  \<open>sample_field data =
     (if data = ''{"accessToken":"test-token"}'' then Inr (Some ''test-token'')
      else if data = ''{}'' then Inr None
      else if data = ''{"accessToken":""}'' then Inr (Some [])
      else if data = ''{"accessToken":"t1","ttl":60}'' then Inr (Some ''t1'')
      else Inl ''invalid character'')\<close>

definition sample_world :: world where
  "sample_world =
     \<lparr>url_Parse = sample_Parse, http_NewRequest = sample_NewRequest,
      client_Do = sample_Do, json_field = sample_field\<rparr>"

definition sample_gate :: "string AuthPlugin" where
  "sample_gate =
     \<lparr>nextHandler = ''OK'', endpointHost = ''auth-service'', endpointPath = ''/verify'',
      timeout = 5 * Second, name = ''auth_cookie''\<rparr>"

definition sample_request :: "string \<Rightarrow> Request" where
  "sample_request k =
     \<lparr>Method = ''GET'', Target = ''http://example.com/'',
      Header = [''X-Api-Key'' \<mapsto> [k], ''X-Account'' \<mapsto> [''acme'']]\<rparr>"

text \<open>The request the sample gate sends for the key \<open>k\<close>.\<close>

definition sample_outbound :: "string \<Rightarrow> Request" where
  "sample_outbound k =
     \<lparr>Method = ''GET'', Target = ''http://auth-service/verify'',
      Header = [''X-Api-Key'' \<mapsto> [k], ''X-Account'' \<mapsto> [''acme'']]\<rparr>"

text \<open>
  The gate \<open>New\<close> builds from the endpoint \<open>http://auth-service/verify%25\<close>, and
  configurations of the sample by endpoint and timeout.
\<close>

definition stray_gate :: "string AuthPlugin" where
  "stray_gate = sample_gate\<lparr>endpointPath := ''/verify%''\<rparr>"

definition sample_config :: "string \<Rightarrow> Duration \<Rightarrow> Config" where
  "sample_config endpoint d = \<lparr>Conf = endpoint, Timeout = d\<rparr>"

text \<open>The request of the package's second test: no header at all.\<close>

definition bare_request :: Request where
  "bare_request = \<lparr>Method = ''GET'', Target = ''http://example.com/'', Header = Map.empty\<rparr>"

section \<open>Auxiliary facts\<close>

subsection \<open>Header names\<close>

lemma canonical_api_key: "CanonicalMIMEHeaderKey ''x-api-key'' = ''X-Api-Key''"
  by (simp add: CanonicalMIMEHeaderKey_def validHeaderFieldByte_def toUpper_def toLower_def)

lemma canonical_account: "CanonicalMIMEHeaderKey ''x-account'' = ''X-Account''"
  by (simp add: CanonicalMIMEHeaderKey_def validHeaderFieldByte_def toUpper_def toLower_def)

lemma Header_Set_both:
  "Header_Set (Header_Set h ''x-api-key'' k) ''x-account'' t =
     h(''X-Api-Key'' \<mapsto> [k], ''X-Account'' \<mapsto> [t])"
  by (simp add: Header_Set_def canonical_api_key canonical_account)

lemma Header_Get_forwarded:
  "Header_Get (h(''X-Api-Key'' \<mapsto> [k], ''X-Account'' \<mapsto> [t])) ''x-api-key'' = k"
  "Header_Get (h(''X-Api-Key'' \<mapsto> [k], ''X-Account'' \<mapsto> [t])) ''x-account'' = t"
  by (simp_all add: Header_Get_def canonical_api_key canonical_account)

subsection \<open>The paths of ServeHTTP\<close>

lemma ServeHTTP_rejects:
  \<open>Header_Get (Header req) ''x-api-key'' = [] \<or> Header_Get (Header req) ''x-account'' = [] \<Longrightarrow>
   ServeHTTP w a req = [HttpError ''{"error": "Unauthorized"}'' 401]\<close>
  by (auto simp add: ServeHTTP_def Let_def StatusUnauthorized_def)

lemma ServeHTTP_no_request:
  assumes "Header_Get (Header req) ''x-api-key'' \<noteq> []"
    and "Header_Get (Header req) ''x-account'' \<noteq> []"
    and "http_NewRequest w ''GET'' (''http://'' @ endpointHost a @ endpointPath a) = Inl err"
  shows \<open>ServeHTTP w a req =
     [Println [''Auth URL:'', ''http://'' @ endpointHost a @ endpointPath a],
      HttpError ''{"error": "Internal error"}'' 500]\<close>
  using assms by (simp add: ServeHTTP_def Let_def MethodGet_def StatusInternalServerError_def)

lemma ServeHTTP_round_trip:
  assumes "Header_Get (Header req) ''x-api-key'' = k" and "k \<noteq> []"
    and "Header_Get (Header req) ''x-account'' = t" and "t \<noteq> []"
    and "http_NewRequest w ''GET'' (''http://'' @ endpointHost a @ endpointPath a) = Inr r"
    and "c = \<lparr>ClientTimeout = timeout a\<rparr>"
    and "r' = r\<lparr>Header := (Header r)(''X-Api-Key'' \<mapsto> [k], ''X-Account'' \<mapsto> [t])\<rparr>"
  shows \<open>ServeHTTP w a req =
     Println [''Auth URL:'', ''http://'' @ endpointHost a @ endpointPath a] #
     ClientDo c r' #
     (case client_Do w c r' of
        Inl err \<Rightarrow> [HttpError ''{"error": "Internal error"}'' 500]
      | Inr resp \<Rightarrow> after_Do w a req resp @ [BodyClose])\<close>
  using assms unfolding ServeHTTP_def StatusInternalServerError_def MethodGet_def
  by (simp add: Let_def Header_Set_both)

lemma after_Do_read_error:
  \<open>Body resp = Inl err \<Longrightarrow> after_Do w a req resp = [HttpError ''{"error": "Internal error"}'' 500]\<close>
  by (simp add: after_Do_def io_ReadAll_def StatusInternalServerError_def)

lemma after_Do_mirror:
  "Body resp = Inr body \<Longrightarrow> StatusCode resp \<noteq> 200 \<Longrightarrow>
   after_Do w a req resp = [WriteHeader (StatusCode resp), Write body]"
  by (simp add: after_Do_def io_ReadAll_def StatusOK_def)

lemma after_Do_decode_error:
  \<open>Body resp = Inr body \<Longrightarrow> StatusCode resp = 200 \<Longrightarrow> json_field w body = Inl err \<Longrightarrow>
   after_Do w a req resp = [HttpError ''{"error": "Internal error"}'' 500]\<close>
  by (simp add: after_Do_def io_ReadAll_def StatusOK_def json_Unmarshal_def
      StatusInternalServerError_def)


subsection \<open>New\<close>

lemma New_value:
  "New w nxt config nm =
     (if Conf config = [] then (Inl ''conf cannot be empty'', [])
      else case url_Parse w (Conf config) of
        Inl err \<Rightarrow> (Inl (''invalid auth endpoint URL: '' @ err), [])
      | Inr u \<Rightarrow>
          (Inr \<lparr>nextHandler = nxt, endpointHost = Host u, endpointPath = Path u,
                 timeout = (if Timeout config = 0 then 30 * Second else Timeout config),
                 name = nm\<rparr>, []))"
  by (simp add: New_def Let_def split: sum.splits)

lemma New_gate:
  assumes "fst (New w nxt config nm) = Inr a"
  shows "Conf config \<noteq> []"
    and "\<exists>u. url_Parse w (Conf config) = Inr u \<and> endpointHost a = Host u \<and> endpointPath a = Path u"
    and "timeout a = (if Timeout config = 0 then 30 * Second else Timeout config)"
    and "nextHandler a = nxt" and "name a = nm"
  using assms by (auto simp add: New_value split: if_splits sum.splits)

subsection \<open>The sample deployment\<close>

lemma sample_headers:
  "Header_Get (Header (sample_request k)) ''x-api-key'' = k"
  "Header_Get (Header (sample_request k)) ''x-account'' = ''acme''"
  by (simp_all add: sample_request_def Header_Get_def canonical_api_key canonical_account)

lemma sample_built:
  "http_NewRequest sample_world ''GET'' (''http://'' @ endpointHost sample_gate @ endpointPath sample_gate) =
     Inr \<lparr>Method = ''GET'', Target = ''http://auth-service/verify'', Header = Map.empty\<rparr>"
  by (simp add: sample_world_def sample_gate_def sample_NewRequest_def sample_Parse_def)

lemma sample_sent:
  "\<lparr>Method = ''GET'', Target = ''http://auth-service/verify'', Header = Map.empty\<rparr>
     \<lparr>Header := (Header \<lparr>Method = ''GET'', Target = ''http://auth-service/verify'', Header = Map.empty\<rparr>)
        (''X-Api-Key'' \<mapsto> [k], ''X-Account'' \<mapsto> [''acme''])\<rparr> = sample_outbound k"
  by (simp add: sample_outbound_def)

lemma sample_outbound_key: "Header_Get (Header (sample_outbound k)) ''x-api-key'' = k"
  by (simp add: sample_outbound_def Header_Get_def canonical_api_key)

lemma sample_unbuilt:
  \<open>http_NewRequest sample_world ''GET'' (''http://'' @ endpointHost stray_gate @ endpointPath stray_gate) =
     Inl ''invalid URL escape "%"''\<close>
  by (simp add: sample_world_def sample_gate_def stray_gate_def sample_NewRequest_def sample_Parse_def)

lemma sample_do:
  "client_Do sample_world \<lparr>ClientTimeout = timeout sample_gate\<rparr>
      (\<lparr>Method = ''GET'', Target = ''http://auth-service/verify'', Header = Map.empty\<rparr>
         \<lparr>Header := (Header \<lparr>Method = ''GET'', Target = ''http://auth-service/verify'', Header = Map.empty\<rparr>)
            (''X-Api-Key'' \<mapsto> [k], ''X-Account'' \<mapsto> [''acme''])\<rparr>) =
   sample_Do \<lparr>ClientTimeout = 5 * Second\<rparr> (sample_outbound k)"
  unfolding sample_sent by (simp add: sample_world_def sample_gate_def)

lemma sample_New:
  "New sample_world ''OK'' (sample_config ''http://auth-service/verify'' d) ''auth_cookie'' =
     (Inr (sample_gate\<lparr>timeout := (if d = 0 then 30 * Second else d)\<rparr>), [])"
  "New sample_world ''OK'' (sample_config ''https://auth-service/verify?realm=a'' d) ''auth_cookie'' =
     (Inr (sample_gate\<lparr>timeout := (if d = 0 then 30 * Second else d)\<rparr>), [])"
  "New sample_world ''OK'' (sample_config ''http://auth-service/verify%25'' d) ''auth_cookie'' =
     (Inr (stray_gate\<lparr>timeout := (if d = 0 then 30 * Second else d)\<rparr>), [])"
  by (simp_all add: New_value sample_config_def sample_world_def sample_Parse_def sample_gate_def
      stray_gate_def)

lemma five_seconds: "5 * Second \<noteq> (0 :: Duration)"
  by (simp add: Second_def)

lemma sample_gate_timeout: "sample_gate\<lparr>timeout := 5 * Second\<rparr> = sample_gate"
  "stray_gate\<lparr>timeout := 5 * Second\<rparr> = stray_gate"
  by (simp_all add: sample_gate_def stray_gate_def)


section \<open>The claims\<close>

text \<open>
  Claim C1. When \<open>Header.Get\<close> gives the empty string for \<open>x-api-key\<close> or for
  \<open>x-account\<close> (the header is absent, or its first value is empty), the whole run of
  \<open>ServeHTTP\<close> is one call of \<open>http.Error\<close> with the message
  \<open>{"error": "Unauthorized"}\<close> and the code 401: the next handler is not called and no
  outbound call is made.
\<close>

theorem missing_header_unauthorized:
  assumes "Header_Get (Header req) ''x-api-key'' = [] \<or> Header_Get (Header req) ''x-account'' = []"
  shows \<open>ServeHTTP w a req = [HttpError ''{"error": "Unauthorized"}'' 401]
    \<and> next_calls (ServeHTTP w a req) = []
    \<and> outbound (ServeHTTP w a req) = []\<close>
  by (simp add: ServeHTTP_rejects [OF assms])

text \<open>
  In the sample: the request without headers, and a request whose \<open>x-api-key\<close> is
  present and empty.
\<close>

theorem missing_header_unauthorized_witness:
  \<open>ServeHTTP sample_world sample_gate bare_request = [HttpError ''{"error": "Unauthorized"}'' 401]
   \<and> next_calls (ServeHTTP sample_world sample_gate bare_request) = []
   \<and> outbound (ServeHTTP sample_world sample_gate bare_request) = []
   \<and> ServeHTTP sample_world sample_gate (sample_request []) = [HttpError ''{"error": "Unauthorized"}'' 401]
   \<and> next_calls (ServeHTTP sample_world sample_gate (sample_request [])) = []
   \<and> outbound (ServeHTTP sample_world sample_gate (sample_request [])) = []\<close>
proof -
  have absent: "Header_Get (Header bare_request) ''x-api-key'' = []
      \<or> Header_Get (Header bare_request) ''x-account'' = []"
    by (simp add: bare_request_def Header_Get_def)
  have empty: "Header_Get (Header (sample_request [])) ''x-api-key'' = []
      \<or> Header_Get (Header (sample_request [])) ''x-account'' = []"
    by (simp add: sample_headers)
  from missing_header_unauthorized [OF absent, of sample_world sample_gate]
    missing_header_unauthorized [OF empty, of sample_world sample_gate]
  show ?thesis
    by blast
qed



text \<open>
  Claim C3. With both headers present, when the outbound call answers a status \<open>S\<close>
  other than 200 with body \<open>B\<close>, \<open>ServeHTTP\<close> writes the status \<open>S\<close> and then the
  body \<open>B\<close> and nothing else, attaches no cookie and does not call the next handler.
\<close>

theorem non_200_mirrored:
  assumes "Header_Get (Header req) ''x-api-key'' = k" and "k \<noteq> []"
    and "Header_Get (Header req) ''x-account'' = t" and "t \<noteq> []"
    and "http_NewRequest w ''GET'' (''http://'' @ endpointHost a @ endpointPath a) = Inr r"
    and "client_Do w \<lparr>ClientTimeout = timeout a\<rparr>
           (r\<lparr>Header := (Header r)(''X-Api-Key'' \<mapsto> [k], ''X-Account'' \<mapsto> [t])\<rparr>) = Inr resp"
    and "StatusCode resp = S" and "S \<noteq> 200" and "Body resp = Inr B"
  shows "written (ServeHTTP w a req) = [WriteHeader S, Write B]
    \<and> cookies (ServeHTTP w a req) = []
    \<and> next_calls (ServeHTTP w a req) = []"
proof -
  have "after_Do w a req resp = [WriteHeader S, Write B]"
    using after_Do_mirror [of resp B w a req] assms(7-9) by simp
  then show ?thesis
    using ServeHTTP_round_trip [OF assms(1-5) refl refl] assms(6) by simp
qed

text \<open>In the sample: a key the auth server answers with 403.\<close>

theorem non_200_mirrored_witness:
  \<open>written (ServeHTTP sample_world sample_gate (sample_request ''expired'')) =
      [WriteHeader 403, Write ''{"error":"forbidden"}'']
    \<and> cookies (ServeHTTP sample_world sample_gate (sample_request ''expired'')) = []
    \<and> next_calls (ServeHTTP sample_world sample_gate (sample_request ''expired'')) = []\<close>
proof -
  have k: "''expired'' \<noteq> []" and t: "''acme'' \<noteq> []"
    by simp_all
  have d: \<open>client_Do sample_world \<lparr>ClientTimeout = timeout sample_gate\<rparr>
      (\<lparr>Method = ''GET'', Target = ''http://auth-service/verify'', Header = Map.empty\<rparr>
         \<lparr>Header := (Header \<lparr>Method = ''GET'', Target = ''http://auth-service/verify'', Header = Map.empty\<rparr>)
            (''X-Api-Key'' \<mapsto> [''expired''], ''X-Account'' \<mapsto> [''acme''])\<rparr>) =
      Inr \<lparr>StatusCode = 403, Body = Inr ''{"error":"forbidden"}''\<rparr>\<close>
    unfolding sample_sent by (simp add: sample_world_def sample_Do_def sample_outbound_key)
  have s: \<open>StatusCode \<lparr>StatusCode = 403, Body = Inr ''{"error":"forbidden"}''\<rparr> = 403\<close>
    and n: "(403 :: int) \<noteq> 200"
    and b: \<open>Body \<lparr>StatusCode = 403, Body = Inr ''{"error":"forbidden"}''\<rparr> =
      Inr ''{"error":"forbidden"}''\<close>
    by simp_all
  from non_200_mirrored [OF sample_headers(1) k sample_headers(2) t sample_built d s n b]
  show ?thesis .
qed

text \<open>
  Claim C4. With both headers present, each failure of the round trip (\<open>client.Do\<close>
  returns an error, which is how a transport failure and a timeout arrive; reading the
  body fails; a 200 body is rejected by the JSON decoder) makes \<open>ServeHTTP\<close> reply
  through \<open>http.Error\<close> with \<open>{"error": "Internal error"}\<close> and 500, with no cookie and
  no call of the next handler.
\<close>

theorem round_trip_failures_internal_error:
  assumes "Header_Get (Header req) ''x-api-key'' = k" and "k \<noteq> []"
    and "Header_Get (Header req) ''x-account'' = t" and "t \<noteq> []"
    and "http_NewRequest w ''GET'' (''http://'' @ endpointHost a @ endpointPath a) = Inr r"
    and "client_Do w \<lparr>ClientTimeout = timeout a\<rparr>
           (r\<lparr>Header := (Header r)(''X-Api-Key'' \<mapsto> [k], ''X-Account'' \<mapsto> [t])\<rparr>) = d"
    and "(\<exists>err. d = Inl err)
       \<or> (\<exists>resp err. d = Inr resp \<and> Body resp = Inl err)
       \<or> (\<exists>resp body err. d = Inr resp \<and> StatusCode resp = 200 \<and> Body resp = Inr body
            \<and> json_field w body = Inl err)"
  shows \<open>written (ServeHTTP w a req) = [HttpError ''{"error": "Internal error"}'' 500]
    \<and> cookies (ServeHTTP w a req) = []
    \<and> next_calls (ServeHTTP w a req) = []\<close>
  using assms(7)
proof (elim disjE exE conjE)
  fix err
  assume "d = Inl err"
  then show ?thesis
    using ServeHTTP_round_trip [OF assms(1-5) refl refl] assms(6) by simp
next
  fix resp err
  assume "d = Inr resp" and "Body resp = Inl err"
  then show ?thesis
    using ServeHTTP_round_trip [OF assms(1-5) refl refl] assms(6)
      after_Do_read_error [of resp err w a req] by simp
next
  fix resp body err
  assume "d = Inr resp" and "StatusCode resp = 200" and "Body resp = Inr body"
    and "json_field w body = Inl err"
  then show ?thesis
    using ServeHTTP_round_trip [OF assms(1-5) refl refl] assms(6)
      after_Do_decode_error [of resp body w err a req] by simp
qed

text \<open>
  In the sample, one request for each of the three failures: a refused connection, a body
  cut short, a 200 body that is no JSON.
\<close>

theorem round_trip_failures_internal_error_witness:
  \<open>written (ServeHTTP sample_world sample_gate (sample_request ''nobody'')) =
      [HttpError ''{"error": "Internal error"}'' 500]
    \<and> next_calls (ServeHTTP sample_world sample_gate (sample_request ''nobody'')) = []
    \<and> written (ServeHTTP sample_world sample_gate (sample_request ''cut'')) =
      [HttpError ''{"error": "Internal error"}'' 500]
    \<and> next_calls (ServeHTTP sample_world sample_gate (sample_request ''cut'')) = []
    \<and> written (ServeHTTP sample_world sample_gate (sample_request ''garbled'')) =
      [HttpError ''{"error": "Internal error"}'' 500]
    \<and> next_calls (ServeHTTP sample_world sample_gate (sample_request ''garbled'')) = []\<close>
proof -
  have t: "''acme'' \<noteq> []"
    by simp
  have k1: "''nobody'' \<noteq> []" and k2: "''cut'' \<noteq> []" and k3: "''garbled'' \<noteq> []"
    by simp_all
  have d1: "\<exists>err. sample_Do \<lparr>ClientTimeout = 5 * Second\<rparr> (sample_outbound ''nobody'') = Inl err"
    by (simp add: sample_Do_def sample_outbound_key)
  have d2: "\<exists>resp err. sample_Do \<lparr>ClientTimeout = 5 * Second\<rparr> (sample_outbound ''cut'') = Inr resp
      \<and> Body resp = Inl err"
    by (simp add: sample_Do_def sample_outbound_key)
  have d3: "\<exists>resp body err. sample_Do \<lparr>ClientTimeout = 5 * Second\<rparr> (sample_outbound ''garbled'') = Inr resp
      \<and> StatusCode resp = 200 \<and> Body resp = Inr body \<and> json_field sample_world body = Inl err"
    by (simp add: sample_Do_def sample_outbound_key sample_world_def sample_field_def)
  note f = round_trip_failures_internal_error [OF sample_headers(1) _ sample_headers(2) t sample_built sample_do]
  from f [OF k1] d1 f [OF k2] d2 f [OF k3] d3 show ?thesis
    by blast
qed

text \<open>
  Claim C5 says that every request with both headers present leads to exactly one outbound
  request. It does not when \<open>http.NewRequest\<close> rejects the URL: the endpoint
  \<open>http://auth-service/verify%25\<close> passes \<open>New\<close> with the path \<open>/verify%\<close>, the
  URL \<open>http://auth-service/verify%\<close> built from it is rejected, and the run makes no
  outbound call.
\<close>

theorem unbuildable_request_no_outbound:
  \<open>fst (New sample_world ''OK'' (sample_config ''http://auth-service/verify%25'' (5 * Second)) ''auth_cookie'')
      = Inr stray_gate
    \<and> Header_Get (Header (sample_request ''dummy'')) ''x-api-key'' = ''dummy''
    \<and> Header_Get (Header (sample_request ''dummy'')) ''x-account'' = ''acme''
    \<and> outbound (ServeHTTP sample_world stray_gate (sample_request ''dummy'')) = []\<close>
proof -
  have \<open>ServeHTTP sample_world stray_gate (sample_request ''dummy'') =
      [Println [''Auth URL:'', ''http://'' @ endpointHost stray_gate @ endpointPath stray_gate],
       HttpError ''{"error": "Internal error"}'' 500]\<close>
    by (rule ServeHTTP_no_request [OF _ _ sample_unbuilt]) (simp_all add: sample_headers)
  then show ?thesis
    by (simp add: sample_New five_seconds sample_gate_timeout sample_headers)
qed

text \<open>
  Claim C5, amended. For a gate that \<open>New\<close> built from an endpoint parsed to \<open>u\<close>,
  and a request with both headers present: when \<open>http.NewRequest\<close> accepts the method
  GET and the URL \<open>http://\<close> followed by the host and the path of \<open>u\<close> (neither the
  scheme nor the query of \<open>u\<close> has a part in it), \<open>ServeHTTP\<close> makes exactly one
  outbound call, with that request and the two inbound header values set on it unchanged.
\<close>

theorem one_outbound_get_when_built:
  assumes "fst (New w nxt config nm) = Inr a"
    and "url_Parse w (Conf config) = Inr u"
    and "Header_Get (Header req) ''x-api-key'' = k" and "k \<noteq> []"
    and "Header_Get (Header req) ''x-account'' = t" and "t \<noteq> []"
    and "http_NewRequest w ''GET'' (''http://'' @ Host u @ Path u) = Inr r"
    and "r' = r\<lparr>Header := (Header r)(''X-Api-Key'' \<mapsto> [k], ''X-Account'' \<mapsto> [t])\<rparr>"
  shows "outbound (ServeHTTP w a req) = [(\<lparr>ClientTimeout = timeout a\<rparr>, r')]
    \<and> Method r' = Method r \<and> Target r' = Target r
    \<and> Header_Get (Header r') ''x-api-key'' = Header_Get (Header req) ''x-api-key''
    \<and> Header_Get (Header r') ''x-account'' = Header_Get (Header req) ''x-account''"
proof -
  from New_gate(2) [OF assms(1)] assms(2)
  have "endpointHost a = Host u" and "endpointPath a = Path u"
    by auto
  with assms(7)
  have b: "http_NewRequest w ''GET'' (''http://'' @ endpointHost a @ endpointPath a) = Inr r"
    by simp
  have "outbound (ServeHTTP w a req) = [(\<lparr>ClientTimeout = timeout a\<rparr>, r')]"
    using ServeHTTP_round_trip [OF assms(3-6) b refl assms(8)]
    by (simp add: after_Do_def split: sum.splits)
  then show ?thesis
    using assms(3,5,8) by (simp add: Header_Get_forwarded)
qed

text \<open>
  In the sample: the endpoint \<open>https://auth-service/verify?realm=a\<close> is called at
  \<open>http://auth-service/verify\<close>.
\<close>

theorem one_outbound_get_when_built_witness:
  "outbound (ServeHTTP sample_world sample_gate (sample_request ''dummy'')) =
      [(\<lparr>ClientTimeout = 5 * Second\<rparr>, sample_outbound ''dummy'')]
    \<and> Target (sample_outbound ''dummy'') = ''http://auth-service/verify''
    \<and> Header_Get (Header (sample_outbound ''dummy'')) ''x-api-key'' = ''dummy''
    \<and> Header_Get (Header (sample_outbound ''dummy'')) ''x-account'' = ''acme''"
proof -
  have n: "fst (New sample_world ''OK'' (sample_config ''https://auth-service/verify?realm=a'' (5 * Second))
      ''auth_cookie'') = Inr sample_gate"
    by (simp add: sample_New five_seconds sample_gate_timeout)
  have p: "url_Parse sample_world (Conf (sample_config ''https://auth-service/verify?realm=a'' (5 * Second))) =
      Inr \<lparr>Scheme = ''https'', Host = ''auth-service'', Path = ''/verify'', RawQuery = ''realm=a''\<rparr>"
    by (simp add: sample_config_def sample_world_def sample_Parse_def)
  have k: "''dummy'' \<noteq> []" and t: "''acme'' \<noteq> []"
    by simp_all
  have b: "http_NewRequest sample_world ''GET''
      (''http://'' @ Host \<lparr>Scheme = ''https'', Host = ''auth-service'', Path = ''/verify'', RawQuery = ''realm=a''\<rparr>
         @ Path \<lparr>Scheme = ''https'', Host = ''auth-service'', Path = ''/verify'', RawQuery = ''realm=a''\<rparr>) =
      Inr \<lparr>Method = ''GET'', Target = ''http://auth-service/verify'', Header = Map.empty\<rparr>"
    by (simp add: sample_world_def sample_NewRequest_def sample_Parse_def)
  from one_outbound_get_when_built [OF n p sample_headers(1) k sample_headers(2) t b sample_sent [symmetric]]
  show ?thesis
    by (simp add: sample_gate_def sample_outbound_def sample_headers)
qed



text \<open>
  Claim C7 says that every configured timeout at or below zero becomes 30 seconds. The
  code tests \<open>timeout == 0\<close>: a configured timeout of -1 nanosecond is kept.
\<close>

theorem negative_timeout_kept:
  "sint (Timeout (sample_config ''http://auth-service/verify'' (- 1))) \<le> 0
   \<and> fst (New sample_world ''OK'' (sample_config ''http://auth-service/verify'' (- 1)) ''auth_cookie'') =
       Inr (sample_gate\<lparr>timeout := - 1\<rparr>)
   \<and> timeout (sample_gate\<lparr>timeout := - 1\<rparr>) \<noteq> 30 * Second"
proof -
  have "sint (Timeout (sample_config ''http://auth-service/verify'' (- 1))) \<le> 0"
    by (simp add: sample_config_def)
  moreover
  have "fst (New sample_world ''OK'' (sample_config ''http://auth-service/verify'' (- 1)) ''auth_cookie'') =
      Inr (sample_gate\<lparr>timeout := - 1\<rparr>)"
    by (simp add: sample_New)
  moreover
  have "timeout (sample_gate\<lparr>timeout := - 1\<rparr>) \<noteq> 30 * Second"
    by (simp add: Second_def)
  ultimately show ?thesis
    by blast
qed

text \<open>
  Claim C7, amended. \<open>New\<close> resolves a configured timeout of zero (also the value of an
  unset field) to 30 seconds, and keeps every other configured timeout unchanged, the
  positive and the negative ones alike.
\<close>

theorem timeout_default_only_for_zero:
  assumes "fst (New w nxt config nm) = Inr a"
  shows "(Timeout config = 0 \<longrightarrow> timeout a = 30 * Second \<and> sint (timeout a) = 30000000000)
    \<and> (0 < sint (Timeout config) \<longrightarrow> timeout a = Timeout config)
    \<and> (sint (Timeout config) < 0 \<longrightarrow> timeout a = Timeout config)"
proof -
  have "sint (30 * Second) = 30000000000"
    by (simp add: Second_def)
  then show ?thesis
    using New_gate(3) [OF assms] by auto
qed

text \<open>In the sample: the timeouts 0, 5 seconds and -1 nanosecond.\<close>

theorem timeout_default_only_for_zero_witness:
  "timeout (sample_gate\<lparr>timeout := 30 * Second\<rparr>) = 30 * Second
   \<and> sint (timeout (sample_gate\<lparr>timeout := 30 * Second\<rparr>)) = 30000000000
   \<and> timeout sample_gate = 5 * Second
   \<and> timeout (sample_gate\<lparr>timeout := - 1\<rparr>) = - 1"
proof -
  have n0: "fst (New sample_world ''OK'' (sample_config ''http://auth-service/verify'' 0) ''auth_cookie'') =
      Inr (sample_gate\<lparr>timeout := 30 * Second\<rparr>)"
    and n5: "fst (New sample_world ''OK'' (sample_config ''http://auth-service/verify'' (5 * Second)) ''auth_cookie'') =
      Inr sample_gate"
    and n1: "fst (New sample_world ''OK'' (sample_config ''http://auth-service/verify'' (- 1)) ''auth_cookie'') =
      Inr (sample_gate\<lparr>timeout := - 1\<rparr>)"
    by (simp_all add: sample_New five_seconds sample_gate_timeout)
  have t0: "Timeout (sample_config ''http://auth-service/verify'' 0) = 0"
    and t5: "0 < sint (Timeout (sample_config ''http://auth-service/verify'' (5 * Second)))"
    and t1: "sint (Timeout (sample_config ''http://auth-service/verify'' (- 1))) < 0"
    by (simp_all add: sample_config_def Second_def)
  from timeout_default_only_for_zero [OF n0] t0
    timeout_default_only_for_zero [OF n5] t5
    timeout_default_only_for_zero [OF n1] t1
  show ?thesis
    by (simp add: sample_config_def)
qed





text \<open>
  Claim C10. With both headers present, when \<open>http.NewRequest\<close> rejects the URL built
  from the stored host and path, the run of \<open>ServeHTTP\<close> is the print of the URL and one
  call of \<open>http.Error\<close> with \<open>{"error": "Internal error"}\<close> and 500: no outbound
  call is made and the next handler is not called. The sample below shows that a gate built
  by \<open>New\<close> can reach this path.
\<close>

theorem unbuildable_request_internal_error:
  assumes "Header_Get (Header req) ''x-api-key'' \<noteq> []"
    and "Header_Get (Header req) ''x-account'' \<noteq> []"
    and "http_NewRequest w ''GET'' (''http://'' @ endpointHost a @ endpointPath a) = Inl err"
  shows \<open>ServeHTTP w a req =
      [Println [''Auth URL:'', ''http://'' @ endpointHost a @ endpointPath a],
       HttpError ''{"error": "Internal error"}'' 500]
    \<and> outbound (ServeHTTP w a req) = []
    \<and> next_calls (ServeHTTP w a req) = []\<close>
  by (simp add: ServeHTTP_no_request [OF assms])

text \<open>
  In the sample: the endpoint \<open>http://auth-service/verify%25\<close>, accepted by \<open>New\<close>.
\<close>

theorem unbuildable_request_internal_error_witness:
  \<open>New sample_world ''OK'' (sample_config ''http://auth-service/verify%25'' (5 * Second)) ''auth_cookie'' =
      (Inr stray_gate, [])
    \<and> http_NewRequest sample_world ''GET'' ''http://auth-service/verify%'' = Inl ''invalid URL escape "%"''
    \<and> ServeHTTP sample_world stray_gate (sample_request ''dummy'') =
      [Println [''Auth URL:'', ''http://auth-service/verify%''],
       HttpError ''{"error": "Internal error"}'' 500]
    \<and> outbound (ServeHTTP sample_world stray_gate (sample_request ''dummy'')) = []
    \<and> next_calls (ServeHTTP sample_world stray_gate (sample_request ''dummy'')) = []\<close>
proof -
  have k: "Header_Get (Header (sample_request ''dummy'')) ''x-api-key'' \<noteq> []"
    and t: "Header_Get (Header (sample_request ''dummy'')) ''x-account'' \<noteq> []"
    by (simp_all add: sample_headers)
  have u: "''http://'' @ endpointHost stray_gate @ endpointPath stray_gate = ''http://auth-service/verify%''"
    by (simp add: stray_gate_def sample_gate_def)
  from unbuildable_request_internal_error [OF k t sample_unbuilt] sample_unbuilt
  show ?thesis
    unfolding u by (simp add: sample_New five_seconds sample_gate_timeout)
qed

end
